theory Spec2Isabelle
  imports Complex_Main
begin

section \<open>JavaScript values\<close>

text \<open>
  A JavaScript number is modelled as an exact rational: rounding of IEEE doubles and the
  rounding of the store's DECIMAL(10,2) columns are outside the model. Strings are
  \<open>string\<close>. A value that may be \<open>undefined\<close> or \<open>null\<close> is an \<open>option\<close>.
\<close>

type_synonym number = rat

text \<open>\<^verbatim>\<open>x || d\<close> on a number: \<open>undefined\<close>, \<open>null\<close> and \<open>0\<close> are falsy.\<close>

definition or_number :: "number option \<Rightarrow> number \<Rightarrow> number" where
  "or_number x d = (case x of None \<Rightarrow> d | Some v \<Rightarrow> if v = 0 then d else v)"

text \<open>\<^verbatim>\<open>x || d\<close> and \<^verbatim>\<open>!x\<close> on a string: \<open>undefined\<close>, \<open>null\<close> and the empty string are falsy.\<close>

definition falsy :: "string option \<Rightarrow> bool" where
  "falsy x = (case x of None \<Rightarrow> True | Some v \<Rightarrow> v = [])"

definition or_string :: "string option \<Rightarrow> string \<Rightarrow> string" where
  "or_string x d = (case x of None \<Rightarrow> d | Some v \<Rightarrow> if v = [] then d else v)"

text \<open>A thrown value, and \<^verbatim>\<open>err instanceof Error ? err.message : d\<close>.\<close>

datatype thrown = Error_with string | Thrown_other

fun error_message :: "thrown \<Rightarrow> string \<Rightarrow> string" where
  "error_message (Error_with m) d = m"
| "error_message Thrown_other d = d"

text \<open>
  \<^verbatim>\<open>NextResponse.json({ error: msg }, { status: n })\<close> and \<^verbatim>\<open>NextResponse.json(x)\<close>
  (status 200).
\<close>

datatype 'a response = Json_error string nat | Json 'a

fun status_of :: "'a response \<Rightarrow> nat" where
  "status_of (Json_error m n) = n"
| "status_of (Json x) = 200"

section \<open>The persistent store\<close>

datatype order_status = pending | processing | shipped | delivered | cancelled

record product_row =
  p_id :: string
  p_price :: "number option"

record order_row =
  o_id :: string
  o_customer_id :: string
  o_status :: order_status
  o_total_amount :: number
  o_shipping_address :: string

record order_item_row =
  oi_order_id :: string
  oi_product_id :: "string option"
  oi_quantity :: number
  oi_unit_price :: number

record payment_row =
  pay_order_id :: string
  pay_amount :: number
  pay_status :: string
  pay_method :: string
  pay_transaction_id :: string

text \<open>
  The tables the handlers write, each a list of rows in insertion order. Row ids other than
  the order id, and the timestamps, are not read by the handlers and are left out.
\<close>

record chat_message =
  m_id :: string
  m_customer_id :: string
  m_sender_id :: string
  m_sender_role :: string
  m_content :: string
  m_created_at :: nat

record customer_message =
  cm_id :: string
  cm_customer_id :: string
  cm_content :: string

record db =
  products :: "product_row list"
  orders :: "order_row list"
  order_items :: "order_item_row list"
  payments :: "payment_row list"
  chat_messages :: "chat_message list"
  customer_messages :: "customer_message list"

text \<open>
  The store is an external collaborator: it may refuse any write (a constraint of its
  schema, an access policy, an outage). Each write therefore takes the store's verdict
  \<open>ok\<close> from the environment; a refused write changes nothing and is reported to the
  caller as an error value. One constraint of the schema is written out, since replaying
  a payment event depends on it: \<^verbatim>\<open>transaction_id VARCHAR(255) UNIQUE\<close> on payments.
\<close>

text \<open>\<^verbatim>\<open>from('orders').update({ status }).eq('id', orderId)\<close>: every row with that id.\<close>

definition set_status :: "string \<Rightarrow> order_status \<Rightarrow> order_row list \<Rightarrow> order_row list" where
  "set_status orderId s rows = map (\<lambda>order. if o_id order = orderId then order\<lparr>o_status := s\<rparr> else order) rows"

definition update_order_status :: "bool \<Rightarrow> string \<Rightarrow> order_status \<Rightarrow> db \<Rightarrow> db" where
  "update_order_status ok orderId s d =
     (if ok then d\<lparr>orders := set_status orderId s (orders d)\<rparr> else d)"

definition transaction_ids :: "db \<Rightarrow> string list" where
  "transaction_ids d = map pay_transaction_id (payments d)"

definition insert_payment :: "bool \<Rightarrow> payment_row \<Rightarrow> db \<Rightarrow> db" where
  "insert_payment ok row d =
     (if ok \<and> pay_transaction_id row \<notin> set (transaction_ids d)
      then d\<lparr>payments := payments d @ [row]\<rparr> else d)"

section \<open>Checkout: POST /api/checkout\<close>

text \<open>
  A cart line as the handler reads it: \<^verbatim>\<open>item.product?.id\<close>, \<^verbatim>\<open>item.product?.price\<close>,
  \<^verbatim>\<open>item.quantity\<close>. The product is the client's copy of a product row.
\<close>

record cart_item =
  product :: "product_row option"
  quantity :: "number option"

record checkout_body =
  cartItems :: "cart_item list option"
  userId :: "string option"
  shippingAddress :: "string option"

text \<open>
  What the collaborators answer during one request. \<open>order_insert\<close> is the id the store
  generates for the new order row, or \<open>None\<close> when the store reports an error;
  \<open>items_insert\<close> tells whether the store accepts the batch of item rows (one INSERT
  statement: all rows or none); \<open>stripe_create\<close> is the session id and url returned by
  \<^verbatim>\<open>stripe.checkout.sessions.create\<close>, or what it throws. The line items the handler
  sends to Stripe feed that call only and are not modelled.
\<close>

record checkout_env =
  order_insert :: "string option"
  items_insert :: bool
  stripe_create :: "thrown + string \<times> string option"

text \<open>\<^verbatim>\<open>item.product?.price || 0\<close> and \<^verbatim>\<open>item.quantity || 1\<close>.\<close>

definition item_price :: "cart_item \<Rightarrow> number" where
  "item_price item = or_number (case product item of None \<Rightarrow> None | Some p \<Rightarrow> p_price p) 0"

definition item_quantity :: "cart_item \<Rightarrow> number" where
  "item_quantity item = or_number (quantity item) 1"

text \<open>\<^verbatim>\<open>cartItems.reduce((sum, item) => sum + price * quantity, 0)\<close>, left to right.\<close>

definition totalAmount :: "cart_item list \<Rightarrow> number" where
  "totalAmount cart = fold (\<lambda>item sum. sum + item_price item * item_quantity item) cart 0"

definition itemsPayload :: "string \<Rightarrow> cart_item list \<Rightarrow> order_item_row list" where
  "itemsPayload oid cart =
     map (\<lambda>item. \<lparr>oi_order_id = oid,
                   oi_product_id = map_option p_id (product item),
                   oi_quantity = item_quantity item,
                   oi_unit_price = item_price item\<rparr>) cart"

text \<open>The order row: the inserted payload, with the id the store generated.\<close>

definition orderPayload :: "string \<Rightarrow> string \<Rightarrow> string option \<Rightarrow> cart_item list \<Rightarrow> order_row" where
  "orderPayload oid uid address cart =
     \<lparr>o_id = oid,
      o_customer_id = uid,
      o_status = pending,
      o_total_amount = totalAmount cart,
      o_shipping_address = or_string address []\<rparr>"

text \<open>
  The handler. The request body is \<open>Inl\<close> when \<^verbatim>\<open>req.json()\<close> throws; \<open>cartItems\<close> is
  \<open>None\<close> when the field is not an array. The store is written twice, with no
  transaction around the two writes and no compensation after the second fails.
\<close>

definition POST_checkout ::
  "checkout_env \<Rightarrow> thrown + checkout_body \<Rightarrow> db \<Rightarrow> (string \<times> string option) response \<times> db" where
  "POST_checkout env req d =
     (case req of
        Inl err \<Rightarrow> (Json_error (error_message err ''Checkout error'') 500, d)
      | Inr body \<Rightarrow>
         (case cartItems body of
            None \<Rightarrow> (Json_error ''Cart is empty'' 400, d)
          | Some cart \<Rightarrow>
             if cart = [] then (Json_error ''Cart is empty'' 400, d)
             else if falsy (userId body) then (Json_error ''Missing userId'' 400, d)
             else
               (case order_insert env of
                  None \<Rightarrow> (Json_error ''Failed to create order'' 500, d)
                | Some oid \<Rightarrow>
                   let d1 = d\<lparr>orders := orders d @
                              [orderPayload oid (or_string (userId body) []) (shippingAddress body) cart]\<rparr> in
                   if \<not> items_insert env
                   then (Json_error ''Failed to create order items'' 500, d1)
                   else
                     let d2 = d1\<lparr>order_items := order_items d1 @ itemsPayload oid cart\<rparr> in
                     (case stripe_create env of
                        Inl err \<Rightarrow> (Json_error (error_message err ''Checkout error'') 500, d2)
                      | Inr session \<Rightarrow> (Json session, d2)))))"

section \<open>Payment webhook: the handler of Stripe deliveries\<close>

datatype payment_intent = Intent_id string | Intent_object string

record checkout_session =
  s_id :: string
  s_metadata_order_id :: "string option"
  s_amount_total :: "number option"
  s_payment_status :: string
  s_payment_intent :: "payment_intent option"

record stripe_event =
  e_type :: string
  e_object :: checkout_session

record webhook_request =
  rawBody :: string
  stripe_signature :: "string option"

text \<open>The store's verdicts on the two writes of one delivery.\<close>

record webhook_env =
  status_update :: bool
  payment_insert :: bool

text \<open>
  \<^verbatim>\<open>typeof session.payment_intent === 'string' ? session.payment_intent
     : session.payment_intent?.id\<close>
\<close>

definition paymentIntentId :: "checkout_session \<Rightarrow> string option" where
  "paymentIntentId session =
     (case s_payment_intent session of
        None \<Rightarrow> None
      | Some (Intent_id i) \<Rightarrow> Some i
      | Some (Intent_object i) \<Rightarrow> Some i)"

definition paymentPayload :: "string \<Rightarrow> checkout_session \<Rightarrow> payment_row" where
  "paymentPayload orderId session =
     (let amountTotal = or_number (s_amount_total session) 0 in
      \<lparr>pay_order_id = orderId,
       pay_amount = or_number (Some amountTotal) 0 / 100,
       pay_status = (if s_payment_status session = ''paid'' then ''completed'' else ''pending''),
       pay_method = ''stripe'',
       pay_transaction_id = or_string (paymentIntentId session) (s_id session)\<rparr>)"

text \<open>
  The handler. \<open>constructEvent\<close> is Stripe's verifier
  (\<^verbatim>\<open>stripe.webhooks.constructEvent(rawBody, sig, endpointSecret)\<close>): it returns the event or
  throws. The results of the two store calls are awaited and not inspected, so the answer
  to a verified delivery is always \<^verbatim>\<open>{ received: true }\<close>.
\<close>

definition POST_webhook ::
  "(string \<Rightarrow> string \<Rightarrow> string \<Rightarrow> thrown + stripe_event) \<Rightarrow> string \<Rightarrow> webhook_env \<Rightarrow>
   webhook_request \<Rightarrow> db \<Rightarrow> unit response \<times> db" where
  "POST_webhook constructEvent endpointSecret env req d =
     (let sig = or_string (stripe_signature req) [] in
      case constructEvent (rawBody req) sig endpointSecret of
        Inl err \<Rightarrow> (Json_error ''Invalid signature'' 400, d)
      | Inr event \<Rightarrow>
          if e_type event = ''checkout.session.completed'' then
            (let session = e_object event; orderId = s_metadata_order_id session in
             if falsy orderId then (Json (), d)
             else
               (let oid = or_string orderId [];
                    d1 = update_order_status (status_update env) oid processing d;
                    d2 = insert_payment (payment_insert env) (paymentPayload oid session) d1
                in (Json (), d2)))
          else (Json (), d))"

section \<open>Admin order table: updateOrderStatus and its buttons\<close>

text \<open>
  \<open>updateOrderStatus\<close> writes the requested status to the store and, when the store
  reports no error, to the page's own list of orders; otherwise it alerts. The result is
  the store, the page's list and the alert shown, if any.
\<close>

definition updateOrderStatus ::
  "bool \<Rightarrow> string \<Rightarrow> order_status \<Rightarrow> db \<times> order_row list \<Rightarrow> db \<times> order_row list \<times> string option" where
  "updateOrderStatus ok orderId newStatus st =
     (case st of (d, local) \<Rightarrow>
        if ok
        then (update_order_status True orderId newStatus d, set_status orderId newStatus local, None)
        else (d, local, Some ''Failed to update order status''))"

text \<open>
  The status buttons a row of the table renders: the new status each button passes to
  \<open>updateOrderStatus\<close>, in the order of the three conditional blocks of the page.
\<close>

definition status_buttons :: "order_row \<Rightarrow> order_status list" where
  "status_buttons order =
     (if o_status order = pending then [processing] else []) @
     (if o_status order = processing then [shipped] else []) @
     (if o_status order = shipped then [delivered] else [])"

section \<open>Chat: the send endpoints and the composers\<close>









section \<open>Chat: the thread list\<close>

definition THREAD_PAGE_SIZE :: nat where
  "THREAD_PAGE_SIZE = 20"

text \<open>\<^verbatim>\<open>.range(from, to)\<close>: the rows at positions \<open>from\<close> to \<open>to\<close>, both included.\<close>

definition range :: "nat \<Rightarrow> nat \<Rightarrow> 'a list \<Rightarrow> 'a list" where
  "range from to rows = take (to + 1 - from) (drop from rows)"

text \<open>
  \<^verbatim>\<open>.order(column, { ascending: false })\<close>. SQL leaves the order of rows with equal keys
  open; the model keeps them in reverse table order.
\<close>

definition order_desc :: "('a \<Rightarrow> nat) \<Rightarrow> 'a list \<Rightarrow> 'a list" where
  "order_desc column rows = rev (sort_key column rows)"

text \<open>
  The \<^verbatim>\<open>chat_threads\<close> view: one row per thread, with the time of its latest message
  (\<^verbatim>\<open>MAX(cm.created_at) ... GROUP BY\<close> the customer). The thread of a message is its
  \<^verbatim>\<open>customer_id\<close>, as in the rows the handlers insert.
\<close>

definition last_message_at :: "chat_message list \<Rightarrow> string \<Rightarrow> nat" where
  "last_message_at msgs c = Max (set (map m_created_at (filter (\<lambda>m. m_customer_id m = c) msgs)))"

definition chat_threads :: "chat_message list \<Rightarrow> (string \<times> nat) list" where
  "chat_threads msgs = map (\<lambda>c. (c, last_message_at msgs c)) (remdups (map m_customer_id msgs))"

text \<open>
  The loop of the fallback: \<open>seen\<close> is the set of thread ids met so far, \<open>ids\<close> the
  result so far; the loop breaks when \<open>ids\<close> holds a page.
\<close>

fun dedupe :: "chat_message list \<Rightarrow> string set \<Rightarrow> string list \<Rightarrow> string list" where
  "dedupe [] seen ids = ids"
| "dedupe (row # rows) seen ids =
     (if m_customer_id row \<notin> seen
      then (let seen' = insert (m_customer_id row) seen; ids' = ids @ [m_customer_id row]
            in if length ids' \<ge> THREAD_PAGE_SIZE then ids' else dedupe rows seen' ids')
      else dedupe rows seen ids)"

text \<open>
  The thread ids \<open>loadThreads\<close> computes for a page: from the view when the view answers
  (\<open>view_ok\<close>), from the messages otherwise.
\<close>

definition loadThreads :: "bool \<Rightarrow> nat \<Rightarrow> chat_message list \<Rightarrow> string list" where
  "loadThreads view_ok page msgs =
     (let from = page * THREAD_PAGE_SIZE; to = from + THREAD_PAGE_SIZE - 1 in
      if view_ok
      then map fst (range from to (order_desc snd (chat_threads msgs)))
      else dedupe (range from (to + THREAD_PAGE_SIZE) (order_desc m_created_at msgs)) {} [])"

section \<open>Chat: the live feed\<close>

text \<open>
  The state updates the two pages pass to \<open>setMessages\<close> on an INSERT and on an UPDATE
  event; \<open>new\<close> is \<^verbatim>\<open>payload.new\<close>. The customer page and the admin page carry the same
  two functions.
\<close>

definition customer_on_insert :: "chat_message list \<Rightarrow> chat_message \<Rightarrow> chat_message list" where
  "customer_on_insert prev new =
     (let exists = list_ex (\<lambda>m. m_id m = m_id new) prev in
      if \<not> exists then prev @ [new] else prev)"

definition admin_on_insert :: "chat_message list \<Rightarrow> chat_message \<Rightarrow> chat_message list" where
  "admin_on_insert prev new =
     (let exists = list_ex (\<lambda>m. m_id m = m_id new) prev in
      if \<not> exists then prev @ [new] else prev)"

definition on_update :: "chat_message list \<Rightarrow> chat_message \<Rightarrow> chat_message list" where
  "on_update prev new = map (\<lambda>m. if m_id m = m_id new then new else m) prev"

section \<open>Example inputs\<close>

text \<open>
  The cart of the specification's scenario: one line, product P1 at 19.99, quantity 2; a
  store with no rows; collaborators that accept everything, and a store that refuses the
  item rows.
\<close>

definition empty_db :: db where
  "empty_db = \<lparr>products = [], orders = [], order_items = [], payments = [],
                chat_messages = [], customer_messages = []\<rparr>"

definition scenario_cart :: "cart_item list" where
  "scenario_cart =
     [\<lparr>product = Some \<lparr>p_id = ''P1'', p_price = Some (1999 / 100)\<rparr>, quantity = Some 2\<rparr>]"

definition scenario_body :: checkout_body where
  "scenario_body = \<lparr>cartItems = Some scenario_cart, userId = Some ''U1'',
                     shippingAddress = Some ''1 Main St''\<rparr>"

definition scenario_env :: checkout_env where
  "scenario_env = \<lparr>order_insert = Some ''O1'', items_insert = True,
                    stripe_create = Inr (''cs_1'', Some ''https://pay'')\<rparr>"

definition refusing_env :: checkout_env where
  "refusing_env = \<lparr>order_insert = Some ''O1'', items_insert = False,
                    stripe_create = Inr (''cs_1'', Some ''https://pay'')\<rparr>"

text \<open>A cart line whose product carries no price and which has no quantity.\<close>

definition unpriced_cart :: "cart_item list" where
  "unpriced_cart = [\<lparr>product = Some \<lparr>p_id = ''P1'', p_price = None\<rparr>, quantity = None\<rparr>]"

definition unpriced_body :: checkout_body where
  "unpriced_body = \<lparr>cartItems = Some unpriced_cart, userId = Some ''U1'',
                     shippingAddress = None\<rparr>"

text \<open>A store whose product table lists P1 at 19.99.\<close>

definition stocked_db :: db where
  "stocked_db = empty_db\<lparr>products := [\<lparr>p_id = ''P1'', p_price = Some (1999 / 100)\<rparr>]\<rparr>"

text \<open>
  Webhook examples. A stand-in for Stripe's verifier that accepts a delivery when its
  signature header equals the endpoint secret and then yields the given event; a session
  for order O1 that is paid, and the same session unpaid (as for a delayed payment
  method); a store holding the pending order O1 of the checkout scenario.
\<close>

definition example_verifier ::
  "stripe_event \<Rightarrow> string \<Rightarrow> string \<Rightarrow> string \<Rightarrow> thrown + stripe_event" where
  "example_verifier event raw sig secret =
     (if sig = secret then Inr event
      else Inl (Error_with ''No signatures found matching the expected signature for payload''))"

definition paid_session :: checkout_session where
  "paid_session = \<lparr>s_id = ''cs_1'', s_metadata_order_id = Some ''O1'',
                    s_amount_total = Some 3998, s_payment_status = ''paid'',
                    s_payment_intent = Some (Intent_id ''pi_1'')\<rparr>"

definition unpaid_session :: checkout_session where
  "unpaid_session = paid_session\<lparr>s_payment_status := ''unpaid''\<rparr>"

definition completed_event :: "checkout_session \<Rightarrow> stripe_event" where
  "completed_event session = \<lparr>e_type = ''checkout.session.completed'', e_object = session\<rparr>"

definition signed_request :: webhook_request where
  "signed_request = \<lparr>rawBody = ''{}'', stripe_signature = Some ''whsec_1''\<rparr>"

definition forged_request :: webhook_request where
  "forged_request = \<lparr>rawBody = ''{}'', stripe_signature = Some ''forged''\<rparr>"

definition accepting_store :: webhook_env where
  "accepting_store = \<lparr>status_update = True, payment_insert = True\<rparr>"

definition order_O1 :: "order_status \<Rightarrow> order_row" where
  "order_O1 s = \<lparr>o_id = ''O1'', o_customer_id = ''U1'', o_status = s,
                  o_total_amount = 3998 / 100, o_shipping_address = ''1 Main St''\<rparr>"

definition pending_db :: db where
  "pending_db = empty_db\<lparr>orders := [order_O1 pending]\<rparr>"

text \<open>
  Admin examples: a store whose order O1 is delivered. Chat examples: a request to each
  send endpoint whose content is three spaces, and a message M1.
\<close>

definition delivered_db :: db where
  "delivered_db = empty_db\<lparr>orders := [order_O1 delivered]\<rparr>"



definition message_M1 :: chat_message where
  "message_M1 = \<lparr>m_id = ''M1'', m_customer_id = ''C1'', m_sender_id = ''C1'',
                  m_sender_role = ''customer'', m_content = ''Hi'', m_created_at = 1\<rparr>"

text \<open>
  Thread examples. A customer message of thread \<open>c\<close> sent at time \<open>t\<close>; a log in which
  customer B wrote once, at time 1, and customer A wrote forty times after that, at times
  2 to 41.
\<close>

definition chat_row :: "string \<Rightarrow> nat \<Rightarrow> chat_message" where
  "chat_row c t = \<lparr>m_id = c @ replicate t (CHR ''i''), m_customer_id = c, m_sender_id = c,
                   m_sender_role = ''customer'', m_content = ''Hi'', m_created_at = t\<rparr>"

definition busy_log :: "chat_message list" where
  "busy_log = chat_row ''B'' 1 # map (chat_row ''A'') [2..<42]"

text \<open>
  The thread list in the specification's words: the distinct customer thread ids, ordered by
  most recent message descending, cut into pages of the fixed size. \<open>first_seen\<close> keeps
  the first occurrence of every element of a list; on the thread ids of the messages taken
  by recency, that is the threads by their most recent message.
\<close>

fun first_seen :: "'a list \<Rightarrow> 'a list" where
  "first_seen [] = []"
| "first_seen (x # xs) = x # first_seen (removeAll x xs)"

definition listThreads_spec :: "nat \<Rightarrow> chat_message list \<Rightarrow> string list" where
  "listThreads_spec page msgs =
     range (page * THREAD_PAGE_SIZE) (page * THREAD_PAGE_SIZE + THREAD_PAGE_SIZE - 1)
       (first_seen (map m_customer_id (order_desc m_created_at msgs)))"

section \<open>Checkout: what is persisted\<close>




text \<open>The same sum taken in the order of the handler's \<open>reduce\<close>, with no law of arithmetic used.\<close>

lemma itemsPayload_fold:
  "fold (\<lambda>it sum. sum + oi_unit_price it * oi_quantity it) (itemsPayload oid cart) 0 = totalAmount cart"
  by (simp add: totalAmount_def itemsPayload_def fold_map comp_def)

text \<open>The store after a request that passes the two checks of the handler.\<close>

lemma POST_checkout_valid:
  assumes "cartItems body = Some cart" and "cart \<noteq> []" and "\<not> falsy (userId body)"
  shows "snd (POST_checkout env (Inr body) d) =
     (case order_insert env of
        None \<Rightarrow> d
      | Some oid \<Rightarrow>
          if items_insert env
          then d\<lparr>orders := orders d @
                   [orderPayload oid (or_string (userId body) []) (shippingAddress body) cart],
                 order_items := order_items d @ itemsPayload oid cart\<rparr>
          else d\<lparr>orders := orders d @
                   [orderPayload oid (or_string (userId body) []) (shippingAddress body) cart]\<rparr>)"
  using assms
  by (cases "order_insert env"; cases "stripe_create env"; simp add: POST_checkout_def Let_def)

text \<open>A request that fails a check leaves the store as it was.\<close>

lemma POST_checkout_invalid:
  assumes "req = Inl err \<or> (\<exists>body. req = Inr body \<and>
             (cartItems body = None \<or> cartItems body = Some [] \<or> falsy (userId body)))"
  shows "snd (POST_checkout env req d) = d"
  using assms by (cases req) (auto simp add: POST_checkout_def split: option.splits)

lemma POST_checkout_items_refused:
  assumes "cartItems body = Some cart" and "cart \<noteq> []" and "\<not> falsy (userId body)"
    and "order_insert env = Some oid" and "\<not> items_insert env"
  shows "fst (POST_checkout env (Inr body) d) = Json_error ''Failed to create order items'' 500"
  using assms by (simp add: POST_checkout_def Let_def)


text \<open>The scenario of the specification: 19.99 times 2 gives an order of 39.98, pending.\<close>

lemma checkout_scenario:
  "POST_checkout scenario_env (Inr scenario_body) empty_db =
     (Json (''cs_1'', Some ''https://pay''),
      empty_db\<lparr>orders := [\<lparr>o_id = ''O1'', o_customer_id = ''U1'', o_status = pending,
                              o_total_amount = 3998 / 100, o_shipping_address = ''1 Main St''\<rparr>],
               order_items := [\<lparr>oi_order_id = ''O1'', oi_product_id = Some ''P1'',
                                 oi_quantity = 2, oi_unit_price = 1999 / 100\<rparr>]\<rparr>)"
  by (simp add: POST_checkout_def scenario_env_def scenario_body_def scenario_cart_def empty_db_def
      falsy_def orderPayload_def itemsPayload_def totalAmount_def item_price_def item_quantity_def
      or_number_def or_string_def Let_def)



text \<open>
  C6, as stated, fails: the order row and the item rows are two separate writes. When the
  store accepts the order and refuses the items, the handler answers 500 and the pending
  order stays in the store with no item.
\<close>

theorem createOrder_all_or_nothing_counterexample:
  "POST_checkout refusing_env (Inr scenario_body) empty_db =
     (Json_error ''Failed to create order items'' 500,
      empty_db\<lparr>orders := [\<lparr>o_id = ''O1'', o_customer_id = ''U1'', o_status = pending,
                              o_total_amount = 3998 / 100, o_shipping_address = ''1 Main St''\<rparr>]\<rparr>)
   \<and> order_items (snd (POST_checkout refusing_env (Inr scenario_body) empty_db)) = []
   \<and> snd (POST_checkout refusing_env (Inr scenario_body) empty_db) \<noteq> empty_db"
  by (simp add: POST_checkout_def refusing_env_def scenario_body_def scenario_cart_def empty_db_def
      falsy_def orderPayload_def itemsPayload_def totalAmount_def item_price_def item_quantity_def
      or_number_def or_string_def Let_def)

text \<open>
  C6, amended. For a request with a non-empty cart and a user id, the handler writes the
  order row first and the N item rows second, as one batch, with no transaction around the
  two writes: nothing is persisted when the store refuses the order; the order and all N
  items are persisted when it accepts both writes; and when it accepts the order and
  refuses the items, the pending order alone stays persisted and the answer is 500.
\<close>

theorem createOrder_persistence:
  assumes "cartItems body = Some cart" and "cart \<noteq> []" and "\<not> falsy (userId body)"
  shows "(order_insert env = None \<longrightarrow> snd (POST_checkout env (Inr body) d) = d)
   \<and> (\<forall>oid. order_insert env = Some oid \<and> items_insert env \<longrightarrow>
          snd (POST_checkout env (Inr body) d) =
            d\<lparr>orders := orders d @
                 [orderPayload oid (or_string (userId body) []) (shippingAddress body) cart],
              order_items := order_items d @ itemsPayload oid cart\<rparr>
          \<and> length (itemsPayload oid cart) = length cart)
   \<and> (\<forall>oid. order_insert env = Some oid \<and> \<not> items_insert env \<longrightarrow>
          POST_checkout env (Inr body) d =
            (Json_error ''Failed to create order items'' 500,
             d\<lparr>orders := orders d @
                 [orderPayload oid (or_string (userId body) []) (shippingAddress body) cart]\<rparr>))"
proof (intro conjI allI impI)
  assume "order_insert env = None"
  then show "snd (POST_checkout env (Inr body) d) = d"
    using assms by (simp add: POST_checkout_valid)
next
  fix oid assume "order_insert env = Some oid \<and> items_insert env"
  then show "snd (POST_checkout env (Inr body) d) =
            d\<lparr>orders := orders d @
                 [orderPayload oid (or_string (userId body) []) (shippingAddress body) cart],
              order_items := order_items d @ itemsPayload oid cart\<rparr>"
    using assms by (simp add: POST_checkout_valid)
next
  fix oid show "length (itemsPayload oid cart) = length cart"
    by (simp add: itemsPayload_def)
next
  fix oid assume h: "order_insert env = Some oid \<and> \<not> items_insert env"
  have "snd (POST_checkout env (Inr body) d) =
          d\<lparr>orders := orders d @
               [orderPayload oid (or_string (userId body) []) (shippingAddress body) cart]\<rparr>"
    using assms h by (simp add: POST_checkout_valid)
  moreover have "fst (POST_checkout env (Inr body) d) =
                   Json_error ''Failed to create order items'' 500"
    using assms h by (simp add: POST_checkout_items_refused)
  ultimately show "POST_checkout env (Inr body) d =
            (Json_error ''Failed to create order items'' 500,
             d\<lparr>orders := orders d @
                 [orderPayload oid (or_string (userId body) []) (shippingAddress body) cart]\<rparr>)"
    by (simp add: prod_eq_iff)
qed

theorem createOrder_persistence_witness:
  "cartItems scenario_body = Some scenario_cart \<and> scenario_cart \<noteq> []
   \<and> \<not> falsy (userId scenario_body)
   \<and> order_insert refusing_env = Some ''O1'' \<and> \<not> items_insert refusing_env
   \<and> POST_checkout refusing_env (Inr scenario_body) empty_db =
        (Json_error ''Failed to create order items'' 500,
         empty_db\<lparr>orders := orders empty_db @
            [orderPayload ''O1'' (or_string (userId scenario_body) [])
               (shippingAddress scenario_body) scenario_cart]\<rparr>)
   \<and> order_insert scenario_env = Some ''O1'' \<and> items_insert scenario_env
   \<and> snd (POST_checkout scenario_env (Inr scenario_body) empty_db) =
        empty_db\<lparr>orders := orders empty_db @
            [orderPayload ''O1'' (or_string (userId scenario_body) [])
               (shippingAddress scenario_body) scenario_cart],
          order_items := order_items empty_db @ itemsPayload ''O1'' scenario_cart\<rparr>"
proof -
  have h: "cartItems scenario_body = Some scenario_cart" "scenario_cart \<noteq> []"
    "\<not> falsy (userId scenario_body)"
    by (simp_all add: scenario_body_def scenario_cart_def falsy_def)
  have r: "order_insert refusing_env = Some ''O1''" "\<not> items_insert refusing_env"
    by (simp_all add: refusing_env_def)
  have a: "order_insert scenario_env = Some ''O1''" "items_insert scenario_env"
    by (simp_all add: scenario_env_def)
  from createOrder_persistence [OF h, of refusing_env empty_db]
       createOrder_persistence [OF h, of scenario_env empty_db] h r a
  show ?thesis by blast
qed




text \<open>
  A line for P1 with no price and no quantity, against a store that lists P1 at 19.99: the
  order totals 0, the item has unit price 0 and quantity 1.
\<close>

lemma checkout_unpriced:
  "snd (POST_checkout scenario_env (Inr unpriced_body) stocked_db) =
     stocked_db\<lparr>orders := [\<lparr>o_id = ''O1'', o_customer_id = ''U1'', o_status = pending,
                              o_total_amount = 0, o_shipping_address = []\<rparr>],
                order_items := [\<lparr>oi_order_id = ''O1'', oi_product_id = Some ''P1'',
                                 oi_quantity = 1, oi_unit_price = 0\<rparr>]\<rparr>"
  by (simp add: POST_checkout_def scenario_env_def unpriced_body_def unpriced_cart_def
        stocked_db_def empty_db_def falsy_def orderPayload_def itemsPayload_def totalAmount_def
        item_price_def item_quantity_def or_number_def or_string_def Let_def)


section \<open>Payment webhook: verification, confirmation, replay\<close>

lemma set_status_idem:
  "set_status orderId s (set_status orderId s rows) = set_status orderId s rows"
  by (simp add: set_status_def comp_def)

lemma set_status_all:
  "list_all (\<lambda>order. o_id order = orderId \<longrightarrow> o_status order = s) (set_status orderId s rows)"
  by (induction rows) (simp_all add: set_status_def)

lemma set_status_others:
  "filter (\<lambda>order. o_id order \<noteq> orderId) (set_status orderId s rows) =
   filter (\<lambda>order. o_id order \<noteq> orderId) rows"
  by (induction rows) (simp_all add: set_status_def)

lemma set_status_ids: "map o_id (set_status orderId s rows) = map o_id rows"
  by (simp add: set_status_def comp_def)

lemma update_order_status_idem:
  "(ok2 \<longrightarrow> ok1) \<Longrightarrow>
   update_order_status ok2 orderId s (update_order_status ok1 orderId s d) =
   update_order_status ok1 orderId s d"
  by (simp add: update_order_status_def set_status_idem)

lemma insert_payment_idem:
  "(ok2 \<longrightarrow> ok1) \<Longrightarrow>
   insert_payment ok2 row (insert_payment ok1 row d) = insert_payment ok1 row d"
  by (simp add: insert_payment_def transaction_ids_def)

lemma insert_payment_update_commute:
  "insert_payment ok row (update_order_status ok' orderId s d) =
   update_order_status ok' orderId s (insert_payment ok row d)"
  by (simp add: insert_payment_def update_order_status_def transaction_ids_def)

lemma insert_payment_distinct:
  "distinct (transaction_ids d) \<Longrightarrow> distinct (transaction_ids (insert_payment ok row d))"
  by (simp add: insert_payment_def transaction_ids_def)

lemma update_order_status_transaction_ids:
  "transaction_ids (update_order_status ok orderId s d) = transaction_ids d"
  by (simp add: update_order_status_def transaction_ids_def)

text \<open>The answer and the store after a verified delivery, and after a rejected one.\<close>

lemma POST_webhook_verified:
  assumes "constructEvent (rawBody req) (or_string (stripe_signature req) []) secret = Inr event"
  shows "POST_webhook constructEvent secret env req d =
     (Json (),
      if e_type event = ''checkout.session.completed''
         \<and> \<not> falsy (s_metadata_order_id (e_object event))
      then insert_payment (payment_insert env)
             (paymentPayload (or_string (s_metadata_order_id (e_object event)) []) (e_object event))
             (update_order_status (status_update env)
                (or_string (s_metadata_order_id (e_object event)) []) processing d)
      else d)"
  using assms by (simp add: POST_webhook_def Let_def)

lemma POST_webhook_rejected:
  assumes "constructEvent (rawBody req) (or_string (stripe_signature req) []) secret = Inl err"
  shows "POST_webhook constructEvent secret env req d = (Json_error ''Invalid signature'' 400, d)"
  using assms by (simp add: POST_webhook_def Let_def)

lemma write_twice:
  assumes "ok2 \<longrightarrow> ok1" and "ok2' \<longrightarrow> ok1'"
  shows "insert_payment ok2' row (update_order_status ok2 orderId s
           (insert_payment ok1' row (update_order_status ok1 orderId s d))) =
         insert_payment ok1' row (update_order_status ok1 orderId s d)"
  using assms
  by (simp add: insert_payment_update_commute insert_payment_idem update_order_status_idem)

lemma update_order_status_or:
  "update_order_status ok2 orderId s (update_order_status ok1 orderId s d) =
   update_order_status (ok1 \<or> ok2) orderId s d"
  by (simp add: update_order_status_def set_status_idem)

lemma insert_payment_or:
  "insert_payment ok2 row (insert_payment ok1 row d) = insert_payment (ok1 \<or> ok2) row d"
  by (simp add: insert_payment_def transaction_ids_def)

lemma write_twice_or:
  "insert_payment ok2' row (update_order_status ok2 orderId s
     (insert_payment ok1' row (update_order_status ok1 orderId s d))) =
   insert_payment (ok1' \<or> ok2') row (update_order_status (ok1 \<or> ok2) orderId s d)"
  by (simp add: insert_payment_update_commute insert_payment_or update_order_status_or)

lemma write_distinct:
  "distinct (transaction_ids d) \<Longrightarrow>
   distinct (transaction_ids (insert_payment ok' row (update_order_status ok orderId s d)))"
  by (simp add: insert_payment_distinct update_order_status_transaction_ids)

text \<open>
  C3. A delivery whose signature the verifier rejects is answered with status 400 and the
  store is left exactly as it was: no order row is updated and no payment row is inserted.
\<close>

theorem webhook_invalid_signature_rejected:
  assumes "constructEvent (rawBody req) (or_string (stripe_signature req) []) secret = Inl err"
  shows "POST_webhook constructEvent secret env req d = (Json_error ''Invalid signature'' 400, d)
    \<and> status_of (fst (POST_webhook constructEvent secret env req d)) = 400
    \<and> orders (snd (POST_webhook constructEvent secret env req d)) = orders d
    \<and> payments (snd (POST_webhook constructEvent secret env req d)) = payments d"
  using assms by (simp add: POST_webhook_rejected)

theorem webhook_invalid_signature_rejected_witness:
  "example_verifier (completed_event paid_session) (rawBody forged_request)
      (or_string (stripe_signature forged_request) []) ''whsec_1''
     = Inl (Error_with ''No signatures found matching the expected signature for payload'')
   \<and> POST_webhook (example_verifier (completed_event paid_session)) ''whsec_1'' accepting_store
        forged_request pending_db = (Json_error ''Invalid signature'' 400, pending_db)"
proof -
  have h: "example_verifier (completed_event paid_session) (rawBody forged_request)
      (or_string (stripe_signature forged_request) []) ''whsec_1''
     = Inl (Error_with ''No signatures found matching the expected signature for payload'')"
    by (simp add: example_verifier_def forged_request_def or_string_def)
  from webhook_invalid_signature_rejected
         [where constructEvent = "example_verifier (completed_event paid_session)"
            and req = forged_request and secret = "''whsec_1''" and env = accepting_store
            and d = pending_db, OF h] h
  show ?thesis by simp
qed

text \<open>
  C4, as stated, fails: a validly signed \<^verbatim>\<open>checkout.session.completed\<close> event whose session
  is not paid (payment status \<open>unpaid\<close>) moves the order to \<open>processing\<close> all the same and
  its payment row is inserted with status \<open>pending\<close>, not \<open>completed\<close>.
\<close>

theorem webhook_payment_completed_counterexample:
  "POST_webhook (example_verifier (completed_event unpaid_session)) ''whsec_1'' accepting_store
     signed_request pending_db =
   (Json (),
    empty_db\<lparr>orders := [order_O1 processing],
             payments := [\<lparr>pay_order_id = ''O1'', pay_amount = 3998 / 100, pay_status = ''pending'',
                            pay_method = ''stripe'', pay_transaction_id = ''pi_1''\<rparr>]\<rparr>)"
  by (simp add: POST_webhook_def example_verifier_def completed_event_def unpaid_session_def
      paid_session_def signed_request_def accepting_store_def pending_db_def empty_db_def
      order_O1_def or_string_def or_number_def falsy_def update_order_status_def set_status_def
      insert_payment_def transaction_ids_def paymentPayload_def paymentIntentId_def
      Let_def)

text \<open>
  C4, amended. For every validly signed \<^verbatim>\<open>checkout.session.completed\<close> event that carries a
  non-empty order id, when the store accepts both writes and holds no payment with the
  event's transaction id, the handler sets the status of the order with that id to
  \<open>processing\<close>, whatever it was (so a pending order becomes processing; the other orders
  are untouched), and inserts exactly one payment row for that order: method \<open>stripe\<close>,
  amount the session total over 100, the provider transaction id (the payment intent id,
  or the session id when there is none), and status \<open>completed\<close> when the session's payment
  status is \<open>paid\<close>, \<open>pending\<close> otherwise.
\<close>

theorem webhook_payment_confirmed:
  assumes "constructEvent (rawBody req) (or_string (stripe_signature req) []) secret = Inr event"
    and "e_type event = ''checkout.session.completed''"
    and "s_metadata_order_id (e_object event) = Some oid" and "oid \<noteq> []"
    and "status_update env" and "payment_insert env"
    and "or_string (paymentIntentId (e_object event)) (s_id (e_object event))
           \<notin> set (transaction_ids d)"
  shows "POST_webhook constructEvent secret env req d =
     (Json (),
      d\<lparr>orders := set_status oid processing (orders d),
        payments := payments d @
          [\<lparr>pay_order_id = oid,
            pay_amount = or_number (s_amount_total (e_object event)) 0 / 100,
            pay_status = (if s_payment_status (e_object event) = ''paid''
                          then ''completed'' else ''pending''),
            pay_method = ''stripe'',
            pay_transaction_id =
              or_string (paymentIntentId (e_object event)) (s_id (e_object event))\<rparr>]\<rparr>)
   \<and> list_all (\<lambda>order. o_id order = oid \<longrightarrow> o_status order = processing)
        (set_status oid processing (orders d))
   \<and> filter (\<lambda>order. o_id order \<noteq> oid) (set_status oid processing (orders d)) =
     filter (\<lambda>order. o_id order \<noteq> oid) (orders d)
   \<and> map o_id (set_status oid processing (orders d)) = map o_id (orders d)"
proof (intro conjI)
  have "or_number (Some (or_number (s_amount_total (e_object event)) 0)) 0 =
        or_number (s_amount_total (e_object event)) 0"
    by (simp add: or_number_def split: option.splits)
  then show "POST_webhook constructEvent secret env req d =
     (Json (),
      d\<lparr>orders := set_status oid processing (orders d),
        payments := payments d @
          [\<lparr>pay_order_id = oid,
            pay_amount = or_number (s_amount_total (e_object event)) 0 / 100,
            pay_status = (if s_payment_status (e_object event) = ''paid''
                          then ''completed'' else ''pending''),
            pay_method = ''stripe'',
            pay_transaction_id =
              or_string (paymentIntentId (e_object event)) (s_id (e_object event))\<rparr>]\<rparr>)"
    using assms
    by (simp add: POST_webhook_verified falsy_def or_string_def
        update_order_status_def insert_payment_def transaction_ids_def paymentPayload_def Let_def)
qed (simp_all add: set_status_all set_status_others set_status_ids)

theorem webhook_payment_confirmed_witness:
  "example_verifier (completed_event paid_session) (rawBody signed_request)
      (or_string (stripe_signature signed_request) []) ''whsec_1'' = Inr (completed_event paid_session)
   \<and> e_type (completed_event paid_session) = ''checkout.session.completed''
   \<and> s_metadata_order_id (e_object (completed_event paid_session)) = Some ''O1'' \<and> ''O1'' \<noteq> []
   \<and> status_update accepting_store \<and> payment_insert accepting_store
   \<and> or_string (paymentIntentId (e_object (completed_event paid_session)))
           (s_id (e_object (completed_event paid_session))) \<notin> set (transaction_ids pending_db)
   \<and> POST_webhook (example_verifier (completed_event paid_session)) ''whsec_1'' accepting_store
        signed_request pending_db =
      (Json (),
       empty_db\<lparr>orders := [order_O1 processing],
                payments := [\<lparr>pay_order_id = ''O1'', pay_amount = 3998 / 100,
                               pay_status = ''completed'', pay_method = ''stripe'',
                               pay_transaction_id = ''pi_1''\<rparr>]\<rparr>)"
proof -
  have h: "example_verifier (completed_event paid_session) (rawBody signed_request)
      (or_string (stripe_signature signed_request) []) ''whsec_1'' = Inr (completed_event paid_session)"
    "e_type (completed_event paid_session) = ''checkout.session.completed''"
    "s_metadata_order_id (e_object (completed_event paid_session)) = Some ''O1''" "''O1'' \<noteq> []"
    "status_update accepting_store" "payment_insert accepting_store"
    "or_string (paymentIntentId (e_object (completed_event paid_session)))
           (s_id (e_object (completed_event paid_session))) \<notin> set (transaction_ids pending_db)"
    by (simp_all add: example_verifier_def signed_request_def or_string_def completed_event_def
        paid_session_def accepting_store_def pending_db_def empty_db_def transaction_ids_def)
  have e: "set_status ''O1'' processing (orders pending_db) = [order_O1 processing]"
    "payments pending_db = []"
    "or_number (s_amount_total (e_object (completed_event paid_session))) 0 / 100 = 3998 / 100"
    "s_payment_status (e_object (completed_event paid_session)) = ''paid''"
    "or_string (paymentIntentId (e_object (completed_event paid_session)))
           (s_id (e_object (completed_event paid_session))) = ''pi_1''"
    by (simp_all add: set_status_def pending_db_def empty_db_def order_O1_def completed_event_def
        paid_session_def or_number_def or_string_def paymentIntentId_def)
  have p: "pending_db\<lparr>orders := [order_O1 processing],
              payments := [\<lparr>pay_order_id = ''O1'', pay_amount = 3998 / 100,
                             pay_status = ''completed'', pay_method = ''stripe'',
                             pay_transaction_id = ''pi_1''\<rparr>]\<rparr> =
           empty_db\<lparr>orders := [order_O1 processing],
              payments := [\<lparr>pay_order_id = ''O1'', pay_amount = 3998 / 100,
                             pay_status = ''completed'', pay_method = ''stripe'',
                             pay_transaction_id = ''pi_1''\<rparr>]\<rparr>"
    by (simp add: pending_db_def)
  from webhook_payment_confirmed
         [where constructEvent = "example_verifier (completed_event paid_session)"
            and req = signed_request and secret = "''whsec_1''" and env = accepting_store
            and d = pending_db and event = "completed_event paid_session" and oid = "''O1''",
          OF h] h e p
  show ?thesis by simp
qed

text \<open>
  C5. Delivering the same payment-confirmation event a second time changes nothing: the
  answer and the whole store, payments and orders alike, are what the first delivery
  left, so no second payment row with the event's transaction id appears and the order's
  status is the same. The handler itself does not look for an earlier payment; it is the
  uniqueness of \<open>transaction_id\<close> in the store that refuses the second insert. When the
  store's verdicts differ between the two deliveries (a write refused the first time and
  accepted the second), the two deliveries together still leave the store as one delivery
  does, the one in which each write is accepted that was accepted in either. Whatever the
  verdicts, two deliveries never leave two payment rows with one transaction id.
\<close>

theorem webhook_replay_idempotent:
  "POST_webhook constructEvent secret env req
     (snd (POST_webhook constructEvent secret env req d)) =
   POST_webhook constructEvent secret env req d
   \<and> snd (POST_webhook constructEvent secret env_b req
          (snd (POST_webhook constructEvent secret env_a req d))) =
     snd (POST_webhook constructEvent secret
            \<lparr>status_update = status_update env_a \<or> status_update env_b,
             payment_insert = payment_insert env_a \<or> payment_insert env_b\<rparr> req d)
   \<and> (distinct (transaction_ids d) \<longrightarrow>
        distinct (transaction_ids
          (snd (POST_webhook constructEvent secret env_b req
                 (snd (POST_webhook constructEvent secret env_a req d))))))"
proof (cases "constructEvent (rawBody req) (or_string (stripe_signature req) []) secret")
  case (Inl err)
  then show ?thesis by (simp add: POST_webhook_rejected)
next
  case (Inr event)
  then show ?thesis
    by (simp add: POST_webhook_verified write_twice write_twice_or write_distinct)
qed

theorem webhook_replay_idempotent_witness:
  "distinct (transaction_ids pending_db)
   \<and> POST_webhook (example_verifier (completed_event paid_session)) ''whsec_1'' accepting_store
       signed_request
       (snd (POST_webhook (example_verifier (completed_event paid_session)) ''whsec_1''
               accepting_store signed_request pending_db)) =
     POST_webhook (example_verifier (completed_event paid_session)) ''whsec_1'' accepting_store
       signed_request pending_db
   \<and> distinct (transaction_ids
        (snd (POST_webhook (example_verifier (completed_event paid_session)) ''whsec_1''
                accepting_store signed_request
                (snd (POST_webhook (example_verifier (completed_event paid_session)) ''whsec_1''
                        accepting_store signed_request pending_db)))))
   \<and> transaction_ids
        (snd (POST_webhook (example_verifier (completed_event paid_session)) ''whsec_1''
                accepting_store signed_request pending_db)) = [''pi_1'']"
proof -
  have h: "distinct (transaction_ids pending_db)"
    by (simp add: transaction_ids_def pending_db_def empty_db_def)
  have r: "POST_webhook (example_verifier (completed_event paid_session)) ''whsec_1''
             accepting_store signed_request pending_db =
      (Json (),
       empty_db\<lparr>orders := [order_O1 processing],
                payments := [\<lparr>pay_order_id = ''O1'', pay_amount = 3998 / 100,
                               pay_status = ''completed'', pay_method = ''stripe'',
                               pay_transaction_id = ''pi_1''\<rparr>]\<rparr>)"
    by (simp add: POST_webhook_def example_verifier_def completed_event_def
      paid_session_def signed_request_def accepting_store_def pending_db_def empty_db_def
      order_O1_def or_string_def or_number_def falsy_def update_order_status_def set_status_def
      insert_payment_def transaction_ids_def paymentPayload_def paymentIntentId_def
      Let_def)
  then have t: "transaction_ids
        (snd (POST_webhook (example_verifier (completed_event paid_session)) ''whsec_1''
                accepting_store signed_request pending_db)) = [''pi_1'']"
    by (simp add: transaction_ids_def)
  from webhook_replay_idempotent
         [where constructEvent = "example_verifier (completed_event paid_session)"
            and secret = "''whsec_1''" and env = accepting_store and env_a = accepting_store
            and env_b = accepting_store and req = signed_request and d = pending_db] h t
  show ?thesis by blast
qed

section \<open>Admin order table: status changes\<close>

lemma set_status_absent:
  "orderId \<notin> set (map o_id rows) \<Longrightarrow> set_status orderId s rows = rows"
  by (induction rows) (auto simp add: set_status_def)

text \<open>
  C2, as stated, fails: \<open>updateOrderStatus\<close> checks nothing. Asked to move the delivered
  order O1 back to \<open>pending\<close> it does so, in the store and on the page, with no alert; asked
  to change an order that does not exist it changes nothing and signals no error.
\<close>

theorem updateOrderStatus_transitions_counterexample:
  "updateOrderStatus True ''O1'' pending (delivered_db, [order_O1 delivered]) =
     (empty_db\<lparr>orders := [order_O1 pending]\<rparr>, [order_O1 pending], None)
   \<and> updateOrderStatus True ''O9'' shipped (delivered_db, [order_O1 delivered]) =
     (delivered_db, [order_O1 delivered], None)"
  by (simp add: updateOrderStatus_def update_order_status_def set_status_def delivered_db_def
      empty_db_def order_O1_def)

text \<open>
  C2, amended. \<open>updateOrderStatus\<close> writes whatever status is requested to the order with
  the given id, without reading the current status: when the store reports no error, every
  order with that id gets the new status, in the store and on the page, and the others are
  untouched; an id that no order has leaves the store as it is and raises no alert; the
  only alert is for an error reported by the store, and then nothing changes. The limit on
  transitions is in the table's buttons: a pending order offers \<open>processing\<close>, a processing
  order \<open>shipped\<close>, a shipped order \<open>delivered\<close>, and a delivered or cancelled order offers
  nothing; no button cancels.
\<close>

theorem updateOrderStatus_effect:
  "updateOrderStatus True orderId newStatus (d, local) =
     (d\<lparr>orders := set_status orderId newStatus (orders d)\<rparr>,
      set_status orderId newStatus local, None)
   \<and> updateOrderStatus False orderId newStatus (d, local) =
     (d, local, Some ''Failed to update order status'')
   \<and> list_all (\<lambda>order. o_id order = orderId \<longrightarrow> o_status order = newStatus)
        (set_status orderId newStatus (orders d))
   \<and> filter (\<lambda>order. o_id order \<noteq> orderId) (set_status orderId newStatus (orders d)) =
     filter (\<lambda>order. o_id order \<noteq> orderId) (orders d)
   \<and> (orderId \<notin> set (map o_id (orders d)) \<longrightarrow>
        updateOrderStatus True orderId newStatus (d, local) =
          (d, set_status orderId newStatus local, None))
   \<and> status_buttons order =
       (case o_status order of
          pending \<Rightarrow> [processing] | processing \<Rightarrow> [shipped] | shipped \<Rightarrow> [delivered]
        | delivered \<Rightarrow> [] | cancelled \<Rightarrow> [])"
proof (intro conjI impI)
  show "updateOrderStatus True orderId newStatus (d, local) =
     (d\<lparr>orders := set_status orderId newStatus (orders d)\<rparr>,
      set_status orderId newStatus local, None)"
    by (simp add: updateOrderStatus_def update_order_status_def)
  show "updateOrderStatus False orderId newStatus (d, local) =
     (d, local, Some ''Failed to update order status'')"
    by (simp add: updateOrderStatus_def)
  show "list_all (\<lambda>order. o_id order = orderId \<longrightarrow> o_status order = newStatus)
        (set_status orderId newStatus (orders d))"
    by (rule set_status_all)
  show "filter (\<lambda>order. o_id order \<noteq> orderId) (set_status orderId newStatus (orders d)) =
     filter (\<lambda>order. o_id order \<noteq> orderId) (orders d)"
    by (rule set_status_others)
  show "status_buttons order =
       (case o_status order of
          pending \<Rightarrow> [processing] | processing \<Rightarrow> [shipped] | shipped \<Rightarrow> [delivered]
        | delivered \<Rightarrow> [] | cancelled \<Rightarrow> [])"
    by (cases "o_status order") (simp_all add: status_buttons_def)
next
  assume "orderId \<notin> set (map o_id (orders d))"
  then have "set_status orderId newStatus (orders d) = orders d"
    by (rule set_status_absent)
  then show "updateOrderStatus True orderId newStatus (d, local) =
          (d, set_status orderId newStatus local, None)"
    by (simp add: updateOrderStatus_def update_order_status_def)
qed

theorem updateOrderStatus_effect_witness:
  "''O9'' \<notin> set (map o_id (orders delivered_db))
   \<and> updateOrderStatus True ''O9'' shipped (delivered_db, [order_O1 delivered]) =
       (delivered_db, [order_O1 delivered], None)
   \<and> updateOrderStatus True ''O1'' cancelled (delivered_db, [order_O1 delivered]) =
       (empty_db\<lparr>orders := [order_O1 cancelled]\<rparr>, [order_O1 cancelled], None)
   \<and> status_buttons (order_O1 delivered) = []
   \<and> status_buttons (order_O1 pending) = [processing]"
proof -
  have h: "''O9'' \<notin> set (map o_id (orders delivered_db))"
    by (simp add: delivered_db_def empty_db_def order_O1_def)
  have e: "set_status ''O9'' shipped [order_O1 delivered] = [order_O1 delivered]"
    "set_status ''O1'' cancelled [order_O1 delivered] = [order_O1 cancelled]"
    "delivered_db\<lparr>orders := set_status ''O1'' cancelled (orders delivered_db)\<rparr> =
       empty_db\<lparr>orders := [order_O1 cancelled]\<rparr>"
    "delivered_db\<lparr>orders := set_status ''O9'' shipped (orders delivered_db)\<rparr> = delivered_db"
    by (simp_all add: set_status_def order_O1_def delivered_db_def empty_db_def)
  have s: "o_status (order_O1 delivered) = delivered" "o_status (order_O1 pending) = pending"
    by (simp_all add: order_O1_def)
  from updateOrderStatus_effect [of "''O9''" shipped delivered_db "[order_O1 delivered]"
         "order_O1 delivered"]
       updateOrderStatus_effect [of "''O1''" cancelled delivered_db "[order_O1 delivered]"
         "order_O1 pending"] h e s
  show ?thesis by simp
qed

section \<open>Chat: what the send endpoints accept\<close>












section \<open>Chat: the live feed and duplicate deliveries\<close>

text \<open>
  C9. The insert handler of either page leaves the message list unchanged when the list
  already holds a message with the delivered id, so handling the same INSERT event a
  second time changes nothing, and a list without duplicate ids never gets one.
\<close>

theorem on_insert_idempotent:
  "(list_ex (\<lambda>m. m_id m = m_id new) prev \<longrightarrow>
      customer_on_insert prev new = prev \<and> admin_on_insert prev new = prev)
   \<and> customer_on_insert (customer_on_insert prev new) new = customer_on_insert prev new
   \<and> admin_on_insert (admin_on_insert prev new) new = admin_on_insert prev new
   \<and> (distinct (map m_id prev) \<longrightarrow>
        distinct (map m_id (customer_on_insert prev new))
        \<and> distinct (map m_id (admin_on_insert prev new)))"
  by (auto simp add: customer_on_insert_def admin_on_insert_def list_ex_iff Let_def)

theorem on_insert_idempotent_witness:
  "list_ex (\<lambda>m. m_id m = m_id message_M1) [message_M1]
   \<and> customer_on_insert [message_M1] message_M1 = [message_M1]
   \<and> admin_on_insert [message_M1] message_M1 = [message_M1]
   \<and> customer_on_insert (customer_on_insert [] message_M1) message_M1 = [message_M1]
   \<and> distinct (map m_id (admin_on_insert [message_M1] (message_M1\<lparr>m_content := ''again''\<rparr>)))"
proof -
  have h: "list_ex (\<lambda>m. m_id m = m_id message_M1) [message_M1]" "distinct (map m_id [message_M1])"
    "list_ex (\<lambda>m. m_id m = m_id (message_M1\<lparr>m_content := ''again''\<rparr>)) [message_M1]"
    by simp_all
  have e: "customer_on_insert [] message_M1 = [message_M1]"
    by (simp add: customer_on_insert_def)
  from on_insert_idempotent [of message_M1 "[message_M1]"]
       on_insert_idempotent [of message_M1 "[]"]
       on_insert_idempotent [of "message_M1\<lparr>m_content := ''again''\<rparr>" "[message_M1]"] h e
  show ?thesis by simp
qed

section \<open>Chat: the two ways to the thread list\<close>

lemma set_first_seen: "set (first_seen xs) = set xs"
  by (induction xs rule: first_seen.induct) auto

lemma distinct_first_seen: "distinct (first_seen xs)"
  by (induction xs rule: first_seen.induct) (simp_all add: set_first_seen)

lemma first_seen_append:
  "first_seen (xs @ ys) = first_seen xs @ first_seen (filter (\<lambda>y. y \<notin> set xs) ys)"
proof (induction xs arbitrary: ys rule: first_seen.induct)
  case 1
  show ?case by simp
next
  case (2 x xs)
  have "filter (\<lambda>y. y \<notin> set (removeAll x xs)) (removeAll x ys) =
        filter (\<lambda>y. y \<notin> set (x # xs)) ys"
    by (induction ys) auto
  with "2.IH" [of "removeAll x ys"] show ?case by simp
qed

text \<open>
  The loop of the fallback computes the first occurrences of the thread ids not yet seen,
  after the ids already found, and stops at a page.
\<close>

lemma dedupe_first_seen:
  "length ids < THREAD_PAGE_SIZE \<Longrightarrow>
   dedupe rows seen ids =
     take THREAD_PAGE_SIZE
       (ids @ first_seen (filter (\<lambda>c. c \<notin> seen) (map m_customer_id rows)))"
proof (induction rows arbitrary: seen ids)
  case Nil
  then show ?case by simp
next
  case (Cons row rows)
  show ?case
  proof (cases "m_customer_id row \<in> seen")
    case True
    with Cons show ?thesis by simp
  next
    case False
    have f: "removeAll (m_customer_id row) (filter (\<lambda>c. c \<notin> seen) (map m_customer_id rows)) =
             filter (\<lambda>c. c \<notin> insert (m_customer_id row) seen) (map m_customer_id rows)"
      by (induction rows) auto
    show ?thesis
    proof (cases "length (ids @ [m_customer_id row]) \<ge> THREAD_PAGE_SIZE")
      case True
      with Cons.prems have "THREAD_PAGE_SIZE - length ids = Suc 0" by simp
      with False True show ?thesis by (simp add: Let_def)
    next
      case full: False
      then have "length (ids @ [m_customer_id row]) < THREAD_PAGE_SIZE" by simp
      from Cons.IH [OF this, of "insert (m_customer_id row) seen"] False full f
      show ?thesis by (simp add: Let_def)
    qed
  qed
qed

lemma loadThreads_fallback_eq:
  "loadThreads False page msgs =
     take THREAD_PAGE_SIZE
       (first_seen (map m_customer_id
          (range (page * THREAD_PAGE_SIZE) (page * THREAD_PAGE_SIZE + 2 * THREAD_PAGE_SIZE - 1)
             (order_desc m_created_at msgs))))"
proof -
  have "(0::nat) < THREAD_PAGE_SIZE" by (simp add: THREAD_PAGE_SIZE_def)
  then have "length ([] :: string list) < THREAD_PAGE_SIZE" by simp
  from dedupe_first_seen [OF this, of _ "{}"]
  show ?thesis by (simp add: loadThreads_def Let_def THREAD_PAGE_SIZE_def)
qed

lemma listThreads_spec_first_page:
  "listThreads_spec 0 msgs =
     take THREAD_PAGE_SIZE (first_seen (map m_customer_id (order_desc m_created_at msgs)))"
  by (simp add: listThreads_spec_def range_def THREAD_PAGE_SIZE_def)

lemma take_first_seen_take:
  "take (length (take n (first_seen (take k xs)))) (take n (first_seen xs)) =
   take n (first_seen (take k xs))"
proof -
  have "first_seen xs = first_seen (take k xs @ drop k xs)" by simp
  also have "\<dots> = first_seen (take k xs) @
                   first_seen (filter (\<lambda>y. y \<notin> set (take k xs)) (drop k xs))"
    by (rule first_seen_append)
  finally show ?thesis by (simp add: min_def)
qed
text \<open>
  The view against the specification's list. The time of a thread's latest message depends
  on the set of messages only.
\<close>

lemma last_message_at_image:
  "last_message_at msgs c = Max (m_created_at ` {m \<in> set msgs. m_customer_id m = c})"
  by (simp add: last_message_at_def)

lemma last_message_at_set:
  "set xs = set ys \<Longrightarrow> last_message_at xs c = last_message_at ys c"
  by (simp add: last_message_at_image)

lemma last_message_at_in:
  assumes "c \<in> m_customer_id ` set msgs"
  shows "\<exists>m \<in> set msgs. m_customer_id m = c \<and> last_message_at msgs c = m_created_at m"
proof -
  let ?A = "m_created_at ` {m \<in> set msgs. m_customer_id m = c}"
  have "finite ?A" by simp
  moreover from assms have "?A \<noteq> {}" by auto
  ultimately have "Max ?A \<in> ?A" by (rule Max_in)
  then show ?thesis by (auto simp add: last_message_at_image)
qed

lemma last_message_at_head:
  assumes "\<forall>x \<in> set rest. m_created_at x < m_created_at m"
  shows "last_message_at (m # rest) (m_customer_id m) = m_created_at m"
proof -
  let ?A = "m_created_at ` {x \<in> set (m # rest). m_customer_id x = m_customer_id m}"
  have "Max ?A = m_created_at m"
  proof (rule Max_eqI)
    show "finite ?A" by simp
    show "m_created_at m \<in> ?A" by simp
    fix y assume "y \<in> ?A"
    with assms show "y \<le> m_created_at m" by (auto intro: less_imp_le)
  qed
  then show ?thesis by (simp only: last_message_at_image)
qed

lemma last_message_at_other:
  assumes "c \<noteq> m_customer_id m"
  shows "last_message_at (m # rest) c =
         last_message_at (filter (\<lambda>x. m_customer_id x \<noteq> m_customer_id m) rest) c"
proof -
  from assms have "{x \<in> set (m # rest). m_customer_id x = c} =
        {x \<in> set (filter (\<lambda>x. m_customer_id x \<noteq> m_customer_id m) rest). m_customer_id x = c}"
    by auto
  then show ?thesis by (simp only: last_message_at_image)
qed

text \<open>
  In a list of messages in strictly descending order of time, the first occurrences of the
  thread ids are the threads in strictly descending order of their latest message.
\<close>

lemma first_seen_descending:
  assumes "sorted_wrt (\<lambda>a b. m_created_at b < m_created_at a) S"
  shows "sorted_wrt (\<lambda>c c'. last_message_at S c' < last_message_at S c)
           (first_seen (map m_customer_id S))"
  using assms
proof (induction "length S" arbitrary: S rule: less_induct)
  case less
  show ?case
  proof (cases S)
    case Nil
    then show ?thesis by simp
  next
    case (Cons m rest)
    let ?T = "filter (\<lambda>x. m_customer_id x \<noteq> m_customer_id m) rest"
    let ?W = "first_seen (map m_customer_id ?T)"
    have below: "\<forall>x \<in> set rest. m_created_at x < m_created_at m"
      using less.prems Cons by simp
    have T_sorted: "sorted_wrt (\<lambda>a b. m_created_at b < m_created_at a) ?T"
      using less.prems Cons by (simp add: sorted_wrt_filter)
    have "length ?T < length S" using Cons by (simp add: le_imp_less_Suc)
    from less.hyps [OF this T_sorted]
    have IH: "sorted_wrt (\<lambda>c c'. last_message_at ?T c' < last_message_at ?T c) ?W" .
    have W_set: "set ?W = m_customer_id ` set ?T" by (simp add: set_first_seen)
    have same: "last_message_at S c = last_message_at ?T c" if "c \<in> set ?W" for c
    proof -
      from that W_set have ne: "c \<noteq> m_customer_id m" by auto
      show ?thesis unfolding Cons by (rule last_message_at_other [OF ne])
    qed
    have head: "last_message_at S (m_customer_id m) = m_created_at m"
      unfolding Cons by (rule last_message_at_head [OF below])
    have smaller: "last_message_at S c < last_message_at S (m_customer_id m)" if "c \<in> set ?W" for c
    proof -
      from that W_set have "c \<in> m_customer_id ` set ?T" by simp
      from last_message_at_in [OF this] obtain x where
        x: "x \<in> set ?T" "last_message_at ?T c = m_created_at x" by blast
      from x(1) have "x \<in> set rest" by simp
      with below have "m_created_at x < m_created_at m" by simp
      with x(2) same [OF that] head show ?thesis by simp
    qed
    have "sorted_wrt (\<lambda>c c'. last_message_at S c' < last_message_at S c) ?W"
    proof (rule sorted_wrt_mono_rel [OF _ IH])
      fix c c' assume "c \<in> set ?W" "c' \<in> set ?W" "last_message_at ?T c' < last_message_at ?T c"
      then show "last_message_at S c' < last_message_at S c" by (simp add: same)
    qed
    moreover have "map m_customer_id ?T = removeAll (m_customer_id m) (map m_customer_id rest)"
      by (induction rest) auto
    ultimately show ?thesis using Cons smaller by simp
  qed
qed

lemma insort_key_map:
  "insort_key f (g x) (map g xs) = map g (insort_key (\<lambda>y. f (g y)) x xs)"
  by (induction xs) simp_all

lemma sort_key_map: "sort_key f (map g xs) = map g (sort_key (\<lambda>y. f (g y)) xs)"
  by (induction xs) (simp_all add: insort_key_map)

lemma order_desc_strict:
  assumes "distinct (map f xs)"
  shows "sorted_wrt (\<lambda>a b. f b < f a) (order_desc f xs)"
proof -
  have "sorted (map f (sort_key f xs))" by simp
  moreover have "distinct (map f (sort_key f xs))"
    using assms by (simp add: distinct_map)
  ultimately have "sorted_wrt (<) (map f (sort_key f xs))" by (simp add: strict_sorted_iff)
  then show ?thesis by (simp add: order_desc_def sorted_wrt_rev sorted_wrt_map)
qed

lemma last_message_at_inj:
  assumes "distinct (map m_created_at msgs)"
  shows "inj_on (last_message_at msgs) (m_customer_id ` set msgs)"
proof (rule inj_onI)
  fix c c' assume c: "c \<in> m_customer_id ` set msgs" "c' \<in> m_customer_id ` set msgs"
    and eq: "last_message_at msgs c = last_message_at msgs c'"
  from last_message_at_in [OF c(1)] obtain x where
    x: "x \<in> set msgs" "m_customer_id x = c" "last_message_at msgs c = m_created_at x" by blast
  from last_message_at_in [OF c(2)] obtain y where
    y: "y \<in> set msgs" "m_customer_id y = c'" "last_message_at msgs c' = m_created_at y" by blast
  from assms have "inj_on m_created_at (set msgs)" by (simp add: distinct_map)
  with x(1) y(1) x(3) y(3) eq have "x = y" by (simp add: inj_on_def)
  with x(2) y(2) show "c = c'" by simp
qed

text \<open>
  With no two messages at the same time, the view's rows by latest message descending are
  the specification's list.
\<close>

lemma view_is_spec:
  assumes "distinct (map m_created_at msgs)"
  shows "map fst (order_desc snd (chat_threads msgs)) =
         first_seen (map m_customer_id (order_desc m_created_at msgs))"
proof -
  let ?L = "last_message_at msgs"
  let ?cs = "remdups (map m_customer_id msgs)"
  let ?S = "order_desc m_created_at msgs"
  let ?V = "rev (sort_key ?L ?cs)"
  let ?W = "first_seen (map m_customer_id ?S)"
  have S_set: "set ?S = set msgs" by (simp add: order_desc_def)
  have V: "map fst (order_desc snd (chat_threads msgs)) = ?V"
    by (simp add: order_desc_def chat_threads_def sort_key_map rev_map comp_def)
  have V_set: "set ?V = m_customer_id ` set msgs" by simp
  have W_set: "set ?W = m_customer_id ` set msgs" by (simp add: set_first_seen S_set)
  have inj: "inj_on ?L (m_customer_id ` set msgs)"
    using assms by (rule last_message_at_inj)
  have V_sorted: "sorted (rev (map ?L ?V))" by (simp add: rev_map)
  have V_distinct: "distinct (rev (map ?L ?V))"
    using inj by (simp add: distinct_map)
  have "sorted_wrt (\<lambda>c c'. last_message_at ?S c' < last_message_at ?S c) ?W"
    using order_desc_strict [OF assms] by (rule first_seen_descending)
  moreover have "last_message_at ?S = ?L"
  proof
    fix c show "last_message_at ?S c = ?L c" using S_set by (rule last_message_at_set)
  qed
  ultimately have "sorted_wrt (\<lambda>c c'. ?L c' < ?L c) ?W" by simp
  then have "sorted_wrt (<) (rev (map ?L ?W))"
    by (simp add: sorted_wrt_rev sorted_wrt_map)
  then have W_sorted: "sorted (rev (map ?L ?W))" and W_distinct: "distinct (rev (map ?L ?W))"
    by (simp_all add: strict_sorted_iff)
  have "set (rev (map ?L ?V)) = set (rev (map ?L ?W))"
    using V_set W_set by simp
  with V_sorted V_distinct W_sorted W_distinct have "rev (map ?L ?V) = rev (map ?L ?W)"
    by (rule sorted_distinct_set_unique)
  then have "map ?L ?V = map ?L ?W" by simp
  moreover have "inj_on ?L (set ?V \<union> set ?W)" using inj V_set W_set by simp
  ultimately have "?V = ?W" by (simp only: inj_on_map_eq_map)
  with V show ?thesis by simp
qed

lemma loadThreads_view_spec:
  assumes "distinct (map m_created_at msgs)"
  shows "loadThreads True page msgs = listThreads_spec page msgs"
proof -
  have "loadThreads True page msgs =
        range (page * THREAD_PAGE_SIZE) (page * THREAD_PAGE_SIZE + THREAD_PAGE_SIZE - 1)
          (map fst (order_desc snd (chat_threads msgs)))"
    by (simp add: loadThreads_def range_def Let_def take_map drop_map)
  then show ?thesis by (simp add: view_is_spec [OF assms] listThreads_spec_def)
qed

text \<open>
  C8, as stated, fails. In a log where customer B wrote once and customer A wrote forty
  times after that, the view lists both threads, A then B; the fallback scans the forty
  most recent messages, all of A, and lists A alone. Asked for the next page, the fallback
  scans from the twenty-first message on and lists A again, then B, while the view's next
  page is empty.
\<close>

theorem loadThreads_paths_counterexample:
  "loadThreads True 0 busy_log = [''A'', ''B'']
   \<and> loadThreads False 0 busy_log = [''A'']
   \<and> loadThreads True 1 busy_log = []
   \<and> loadThreads False 1 busy_log = [''A'', ''B'']"
  by code_simp

text \<open>
  C8, amended. For every message log and every page, the fallback path returns the thread
  ids of the messages at positions \<open>page * 20\<close> to \<open>page * 20 + 39\<close> of the log taken by
  recency, each id once, in the order of its most recent message, at most a page of them.
  On the first page this is a beginning of the list of all distinct thread ids by most
  recent message descending, and the whole first page of that list when the log holds at
  most two pages of messages. The view path returns the pages of that list whenever no two
  messages carry the same time. So the two paths agree on the first page of a log of at
  most forty messages with distinct times; they need not agree beyond.
\<close>

theorem loadThreads_fallback_page:
  "loadThreads False page msgs =
     take THREAD_PAGE_SIZE
       (first_seen (map m_customer_id
          (range (page * THREAD_PAGE_SIZE) (page * THREAD_PAGE_SIZE + 2 * THREAD_PAGE_SIZE - 1)
             (order_desc m_created_at msgs))))
   \<and> distinct (loadThreads False page msgs)
   \<and> length (loadThreads False page msgs) \<le> THREAD_PAGE_SIZE
   \<and> take (length (loadThreads False 0 msgs)) (listThreads_spec 0 msgs) = loadThreads False 0 msgs
   \<and> (length msgs \<le> 2 * THREAD_PAGE_SIZE \<longrightarrow>
        loadThreads False 0 msgs = listThreads_spec 0 msgs)
   \<and> (distinct (map m_created_at msgs) \<longrightarrow>
        loadThreads True page msgs = listThreads_spec page msgs)
   \<and> (distinct (map m_created_at msgs) \<and> length msgs \<le> 2 * THREAD_PAGE_SIZE \<longrightarrow>
        loadThreads False 0 msgs = loadThreads True 0 msgs)"
proof (intro conjI impI)
  show "loadThreads False page msgs =
     take THREAD_PAGE_SIZE
       (first_seen (map m_customer_id
          (range (page * THREAD_PAGE_SIZE) (page * THREAD_PAGE_SIZE + 2 * THREAD_PAGE_SIZE - 1)
             (order_desc m_created_at msgs))))"
    by (rule loadThreads_fallback_eq)
  show "distinct (loadThreads False page msgs)"
    by (simp add: loadThreads_fallback_eq distinct_first_seen)
  show "length (loadThreads False page msgs) \<le> THREAD_PAGE_SIZE"
    by (simp add: loadThreads_fallback_eq)
  have first: "loadThreads False 0 msgs =
      take THREAD_PAGE_SIZE (first_seen (take (2 * THREAD_PAGE_SIZE)
        (map m_customer_id (order_desc m_created_at msgs))))"
    using loadThreads_fallback_eq [of 0 msgs] by (simp add: range_def THREAD_PAGE_SIZE_def take_map)
  show "take (length (loadThreads False 0 msgs)) (listThreads_spec 0 msgs) =
        loadThreads False 0 msgs"
    unfolding first listThreads_spec_first_page by (rule take_first_seen_take)
  have small: "loadThreads False 0 msgs = listThreads_spec 0 msgs"
    if "length msgs \<le> 2 * THREAD_PAGE_SIZE"
  proof -
    from that have "length (map m_customer_id (order_desc m_created_at msgs)) \<le> 2 * THREAD_PAGE_SIZE"
      by (simp add: order_desc_def)
    then have "take (2 * THREAD_PAGE_SIZE) (map m_customer_id (order_desc m_created_at msgs)) =
               map m_customer_id (order_desc m_created_at msgs)"
      by (rule take_all)
    then show ?thesis by (simp only: first listThreads_spec_first_page)
  qed
  show "loadThreads False 0 msgs = listThreads_spec 0 msgs"
    if "length msgs \<le> 2 * THREAD_PAGE_SIZE"
    using that by (rule small)
  show "loadThreads True page msgs = listThreads_spec page msgs"
    if "distinct (map m_created_at msgs)"
    using that by (rule loadThreads_view_spec)
  show "loadThreads False 0 msgs = loadThreads True 0 msgs"
    if "distinct (map m_created_at msgs) \<and> length msgs \<le> 2 * THREAD_PAGE_SIZE"
    using that small loadThreads_view_spec [of msgs 0] by simp
qed

theorem loadThreads_fallback_page_witness:
  "distinct (map m_created_at (take 3 busy_log))
   \<and> length (take 3 busy_log) \<le> 2 * THREAD_PAGE_SIZE
   \<and> loadThreads False 0 (take 3 busy_log) = loadThreads True 0 (take 3 busy_log)
   \<and> loadThreads True 0 (take 3 busy_log) = [''A'', ''B'']
   \<and> distinct (loadThreads False 1 busy_log)
   \<and> length (loadThreads False 1 busy_log) \<le> THREAD_PAGE_SIZE"
proof -
  have h: "distinct (map m_created_at (take 3 busy_log))"
    "length (take 3 busy_log) \<le> 2 * THREAD_PAGE_SIZE"
    by code_simp+
  have e: "loadThreads True 0 (take 3 busy_log) = [''A'', ''B'']" by code_simp
  from loadThreads_fallback_page [of 0 "take 3 busy_log"] h
  have a: "loadThreads False 0 (take 3 busy_log) = loadThreads True 0 (take 3 busy_log)"
    by blast
  from loadThreads_fallback_page [of 1 busy_log]
  have b: "distinct (loadThreads False 1 busy_log)"
    "length (loadThreads False 1 busy_log) \<le> THREAD_PAGE_SIZE"
    by blast+
  from h e a b show ?thesis by blast
qed

end
